theory Spec2Isabelle
  imports Complex_Main
begin

section \<open>Python values read from JSON\<close>

text \<open>
  \<^verbatim>\<open>request.get_json()\<close> hands the handler a Python value built from JSON: \<^verbatim>\<open>None\<close>,
  a bool, an int, a float, a str, a list or a dict with string keys. The handler observes
  of a value only its type, its truthiness, equality with the string \<^verbatim>\<open>"text"\<close>,
  \<^verbatim>\<open>.get\<close> and \<^verbatim>\<open>[0]\<close>. A dict is an association list read with \<open>map_of\<close>;
  Python's \<^verbatim>\<open>None\<close> and JSON's \<^verbatim>\<open>null\<close> are the same value \<open>JNull\<close>.
\<close>

datatype pyfloat = Finite rat | Infinite bool | NaN

datatype json =
    JNull
  | JBool bool
  | JInt int
  | JFloat pyfloat
  | JStr string
  | JArr "json list"
  | JObj "(string \<times> json) list"

text \<open>Truthiness, as \<^verbatim>\<open>if x\<close>, \<^verbatim>\<open>x and y\<close> and \<^verbatim>\<open>all([...])\<close> test it.\<close>

fun truthy :: "json \<Rightarrow> bool" where
  "truthy JNull = False"
| "truthy (JBool b) = b"
| "truthy (JInt n) = (n \<noteq> 0)"
| "truthy (JFloat f) = (f \<noteq> Finite 0)"
| "truthy (JStr s) = (s \<noteq> [])"
| "truthy (JArr xs) = (xs \<noteq> [])"
| "truthy (JObj kvs) = (kvs \<noteq> [])"

fun is_dict :: "json \<Rightarrow> bool" where
  "is_dict (JObj kvs) = True"
| "is_dict _ = False"

fun is_list :: "json \<Rightarrow> bool" where
  "is_list (JArr xs) = True"
| "is_list _ = False"

fun is_str :: "json \<Rightarrow> bool" where
  "is_str (JStr s) = True"
| "is_str _ = False"

text \<open>The exceptions that the operations on these values raise.\<close>

datatype exn = IndexError | AttributeError | TypeError | KeyError

text \<open>
  \<^verbatim>\<open>x.get(k, d)\<close>: only a dict has the method; every other value raises AttributeError.
  \<^verbatim>\<open>x.get(k)\<close> is \<^verbatim>\<open>x.get(k, None)\<close>.
\<close>

fun py_get :: "json \<Rightarrow> string \<Rightarrow> json \<Rightarrow> exn + json" where
  "py_get (JObj kvs) k d = Inr (case map_of kvs k of None \<Rightarrow> d | Some v \<Rightarrow> v)"
| "py_get _ k d = Inl AttributeError"

text \<open>
  \<^verbatim>\<open>x[0]\<close>: the first element of a list or the first character of a str, IndexError when
  either is empty; a dict is looked up at the key \<^verbatim>\<open>0\<close>, which a dict with string keys
  never has, so it raises KeyError; the other values are not subscriptable (TypeError).
\<close>

fun py_index0 :: "json \<Rightarrow> exn + json" where
  "py_index0 (JArr []) = Inl IndexError"
| "py_index0 (JArr (x # xs)) = Inr x"
| "py_index0 (JStr []) = Inl IndexError"
| "py_index0 (JStr (c # cs)) = Inr (JStr [c])"
| "py_index0 (JObj kvs) = Inl KeyError"
| "py_index0 _ = Inl TypeError"

text \<open>Sequencing of statements that may raise.\<close>

definition then_do :: "exn + 'a \<Rightarrow> ('a \<Rightarrow> exn + 'b) \<Rightarrow> exn + 'b" where
  "then_do r f = (case r of Inl e \<Rightarrow> Inl e | Inr x \<Rightarrow> f x)"

section \<open>What the handlers do to the outside\<close>

text \<open>
  A run of a handler is the list of the calls it makes to the outside, in order, and the
  way the request ends. The calls: \<^verbatim>\<open>print\<close> (one constructor per message of the
  source), the request \<^verbatim>\<open>client.chat.completions.create\<close> to the completion provider,
  and \<^verbatim>\<open>requests.post\<close> to the relay. A \<^verbatim>\<open>print\<close> is taken to return: the standard
  output is assumed to accept every text that the handlers write.
\<close>

datatype logline =
    Incoming_webhook_message json
  | Error_parsing_payload exn
  | Missing_essential_data
  | User_message json json
  | AI_reply "string option"
  | Reply_sent json
  | Error_sending_reply
  | Marked_as_read json
  | Error_marking_read
  | Response_content string
  | Client_not_initialized
  | Error_fetching_completion
  | GET_webhook "string option" "string option" "string option"
  | Webhook_verified
  | Mode_or_token_mismatch
  | Missing_mode_or_token

text \<open>
  The request of \<^verbatim>\<open>requests.post(graph_api_url, headers=headers, json=payload)\<close>.
  The URL \<^verbatim>\<open>https://graph.facebook.com/v22.0/{business_phone_number_id}/messages\<close> is kept as
  the value formatted into it, the header \<^verbatim>\<open>Bearer {GRAPH_API_TOKEN}\<close> as the token.
\<close>

record request =
  graph_messages_url :: json
  bearer :: "string option"
  payload :: json

datatype event =
    Print logline
  | Call_chat_completions_create string json
  | Call_requests_post request

fun is_call :: "event \<Rightarrow> bool" where
  "is_call (Print l) = False"
| "is_call _ = True"

definition calls :: "event list \<Rightarrow> event list" where
  "calls evs = filter is_call evs"

text \<open>
  What the completion provider does with a request: it answers, and
  \<^verbatim>\<open>completion.choices[0].message.content\<close> is a str or \<^verbatim>\<open>None\<close> (the client library
  types it as an optional string), or something in the \<^verbatim>\<open>try\<close> body raises an
  \<^verbatim>\<open>Exception\<close> (network, authentication, rate limit, a response without choices).
\<close>

datatype completion_result = Content "string option" | Raised

text \<open>
  What \<^verbatim>\<open>requests.post\<close> does: it raises a \<^verbatim>\<open>RequestException\<close> (carrying the content of a
  response, if it has one), or returns a response with a status code, a content and,
  when the content is JSON, its value.
\<close>

datatype post_result =
    Request_exception "string option"
  | Http_response nat string "json option"

text \<open>
  The process-wide configuration: two environment variables, the provider client
  (\<open>None\<close> when \<^verbatim>\<open>OpenAI(...)\<close> raised at start), and the network behind \<^verbatim>\<open>requests.post\<close>.
\<close>

record env =
  WEBHOOK_VERIFY_TOKEN :: "string option"
  GRAPH_API_TOKEN :: "string option"
  client :: "(string \<Rightarrow> json \<Rightarrow> completion_result) option"
  requests_post :: "request \<Rightarrow> post_result"

text \<open>
  How a request ends: with the response that the view returned, a body and a status, or
  with an exception that nothing catches, which the framework answers with status 500.
  The body of a response is a text returned as it is, or the value given to
  \<^verbatim>\<open>jsonify\<close>.
\<close>

datatype body = Raw string | Jsonify json

datatype outcome = Returned body nat | Unhandled exn

section \<open>get\_chat\_completion\<close>

definition unavailable_reply :: string where
  "unavailable_reply =
     ''Maaf sedang ada kendala pada Asisten AI kami. Mohon ditunggu hingga kami menghubungi Anda kembali...''"

definition failed_reply :: string where
  "failed_reply = ''Ada kesalahan dalam memproses permintaan Anda. Mohon coba lagi nanti.''"

definition chat_messages :: "json \<Rightarrow> json" where
  "chat_messages user_message =
     JArr [JObj [(''role'', JStr ''user''), (''content'', user_message)]]"

text \<open>
  The value returned is a str or \<^verbatim>\<open>None\<close>: line 44 returns the content of the answer as
  it is. No path of the function raises: \<^verbatim>\<open>except Exception\<close> covers the whole of the
  \<^verbatim>\<open>try\<close> body.
\<close>

definition get_chat_completion ::
  "(string \<Rightarrow> json \<Rightarrow> completion_result) option \<Rightarrow> json
     \<Rightarrow> event list \<times> string option" where
  "get_chat_completion cl user_message =
     (case cl of
        None \<Rightarrow> ([Print Client_not_initialized], Some unavailable_reply)
      | Some create \<Rightarrow>
          (case create ''gpt-4o-mini'' (chat_messages user_message) of
             Content c \<Rightarrow>
               ([Call_chat_completions_create ''gpt-4o-mini'' (chat_messages user_message)], c)
           | Raised \<Rightarrow>
               ([Call_chat_completions_create ''gpt-4o-mini'' (chat_messages user_message),
                 Print Error_fetching_completion], Some failed_reply)))"

section \<open>webhook\_post\<close>

text \<open>The \<^verbatim>\<open>try\<close> body of lines 60 to 63, statement by statement.\<close>

definition parse_payload :: "json \<Rightarrow> exn + (json \<times> json)" where
  "parse_payload data =
     then_do (py_get data ''entry'' (JArr [JObj []])) (\<lambda>entry.
     then_do (py_index0 entry) (\<lambda>entry0.
     then_do (py_get entry0 ''changes'' (JArr [JObj []])) (\<lambda>changes_list.
     then_do (py_index0 changes_list) (\<lambda>changes.
     then_do (py_get changes ''value'' (JObj [])) (\<lambda>val.
     then_do (py_get val ''messages'' (JArr [JObj []])) (\<lambda>messages.
     then_do (py_index0 messages) (\<lambda>message_object.
     then_do (py_get val ''metadata'' (JObj [])) (\<lambda>metadata.
     Inr (message_object, metadata)))))))))"

text \<open>\<^verbatim>\<open>except (IndexError, AttributeError, TypeError)\<close>.\<close>

fun caught :: "exn \<Rightarrow> bool" where
  "caught IndexError = True"
| "caught AttributeError = True"
| "caught TypeError = True"
| "caught KeyError = False"

definition success_body :: json where
  "success_body = JObj [(''status'', JStr ''success'')]"

definition error_body :: "string \<Rightarrow> json" where
  "error_body msg = JObj [(''status'', JStr ''error''), (''message'', JStr msg)]"

text \<open>The condition of line 69: \<^verbatim>\<open>message_object and message_object.get("type") == "text"\<close>.\<close>

definition is_text_message :: "json \<Rightarrow> exn + bool" where
  "is_text_message message_object =
     (if \<not> truthy message_object then Inr False
      else then_do (py_get message_object ''type'' JNull) (\<lambda>t. Inr (t = JStr ''text'')))"

text \<open>Lines 70 to 73: the four values that the handler needs.\<close>

definition message_fields :: "json \<Rightarrow> json \<Rightarrow> exn + (json \<times> json \<times> json \<times> json)" where
  "message_fields message_object metadata =
     then_do (py_get metadata ''phone_number_id'' JNull) (\<lambda>business_phone_number_id.
     then_do (py_get message_object ''text'' (JObj [])) (\<lambda>text.
     then_do (py_get text ''body'' JNull) (\<lambda>user_message_text.
     then_do (py_get message_object ''from'' JNull) (\<lambda>message_from.
     then_do (py_get message_object ''id'' JNull) (\<lambda>message_id.
     Inr (business_phone_number_id, user_message_text, message_from, message_id))))))"

text \<open>A str or \<^verbatim>\<open>None\<close> as a value inside a JSON payload.\<close>

fun str_or_none :: "string option \<Rightarrow> json" where
  "str_or_none None = JNull"
| "str_or_none (Some s) = JStr s"

definition payload_reply :: "json \<Rightarrow> string option \<Rightarrow> json \<Rightarrow> json" where
  "payload_reply message_from ai_reply message_id =
     JObj [(''messaging_product'', JStr ''whatsapp''),
           (''to'', message_from),
           (''text'', JObj [(''body'', str_or_none ai_reply)]),
           (''context'', JObj [(''message_id'', message_id)])]"

definition payload_read :: "json \<Rightarrow> json" where
  "payload_read message_id =
     JObj [(''messaging_product'', JStr ''whatsapp''),
           (''status'', JStr ''read''),
           (''message_id'', message_id)]"

text \<open>
  \<^verbatim>\<open>response.raise_for_status()\<close> raises \<^verbatim>\<open>HTTPError\<close>, a \<^verbatim>\<open>RequestException\<close> that carries
  the response, for the status codes 400 to 599 (the source's comment: 4xx or 5xx).
\<close>

definition raises_for_status :: "nat \<Rightarrow> bool" where
  "raises_for_status code = (400 \<le> code \<and> code < 600)"

text \<open>
  The \<^verbatim>\<open>try\<close> block around each \<^verbatim>\<open>requests.post\<close> (lines 97 to 104 and 113 to 120; the
  two differ in their messages only). \<^verbatim>\<open>response.json()\<close> inside the success message
  raises \<^verbatim>\<open>requests.exceptions.JSONDecodeError\<close> on a content that is not JSON: a
  \<^verbatim>\<open>RequestException\<close> without response (requests 2.27 and later).
\<close>

definition post_logged ::
  "(request \<Rightarrow> post_result) \<Rightarrow> request \<Rightarrow> (json \<Rightarrow> logline) \<Rightarrow> logline \<Rightarrow> event list" where
  "post_logged post req ok_line error_line =
     Call_requests_post req #
     (case post req of
        Request_exception None \<Rightarrow> [Print error_line]
      | Request_exception (Some content) \<Rightarrow> [Print error_line, Print (Response_content content)]
      | Http_response code content parsed \<Rightarrow>
          if raises_for_status code then [Print error_line, Print (Response_content content)]
          else (case parsed of
                  Some j \<Rightarrow> [Print (ok_line j)]
                | None \<Rightarrow> [Print error_line]))"

text \<open>Lines 79 to 120: the work on a text message whose four values are all truthy.\<close>

definition reply_and_mark_read :: "env \<Rightarrow> json \<Rightarrow> json \<Rightarrow> json \<Rightarrow> json \<Rightarrow> event list" where
  "reply_and_mark_read e business_phone_number_id user_message_text message_from message_id =
     (let (completion_events, ai_reply) = get_chat_completion (client e) user_message_text;
          send = \<lparr>graph_messages_url = business_phone_number_id,
                  bearer = GRAPH_API_TOKEN e,
                  payload = payload_reply message_from ai_reply message_id\<rparr>;
          mark = \<lparr>graph_messages_url = business_phone_number_id,
                  bearer = GRAPH_API_TOKEN e,
                  payload = payload_read message_id\<rparr>
      in [Print (User_message user_message_text message_from)]
         @ completion_events
         @ [Print (AI_reply ai_reply)]
         @ post_logged (requests_post e) send Reply_sent Error_sending_reply
         @ post_logged (requests_post e) mark Marked_as_read Error_marking_read)"

text \<open>Lines 69 to 122, once the payload is parsed.\<close>

definition handle_message :: "env \<Rightarrow> json \<Rightarrow> json \<Rightarrow> event list \<times> outcome" where
  "handle_message e message_object metadata =
     (case is_text_message message_object of
        Inl x \<Rightarrow> ([], Unhandled x)
      | Inr False \<Rightarrow> ([], Returned (Jsonify success_body) 200)
      | Inr True \<Rightarrow>
          (case message_fields message_object metadata of
             Inl x \<Rightarrow> ([], Unhandled x)
           | Inr (business_phone_number_id, user_message_text, message_from, message_id) \<Rightarrow>
               if \<not> (truthy business_phone_number_id \<and> truthy user_message_text
                      \<and> truthy message_from \<and> truthy message_id)
               then ([Print Missing_essential_data],
                     Returned (Jsonify (error_body ''Missing message data'')) 400)
               else (reply_and_mark_read e business_phone_number_id user_message_text
                       message_from message_id,
                     Returned (Jsonify success_body) 200)))"

definition webhook_post :: "env \<Rightarrow> json \<Rightarrow> event list \<times> outcome" where
  "webhook_post e data =
     (case parse_payload data of
        Inl x \<Rightarrow>
          if caught x
          then ([Print (Incoming_webhook_message data), Print (Error_parsing_payload x)],
                Returned (Jsonify (error_body ''Malformed payload'')) 400)
          else ([Print (Incoming_webhook_message data)], Unhandled x)
      | Inr (message_object, metadata) \<Rightarrow>
          (case handle_message e message_object metadata of
             (evs, out) \<Rightarrow> (Print (Incoming_webhook_message data) # evs, out)))"

section \<open>webhook\_get\<close>

text \<open>
  \<^verbatim>\<open>request.args.get\<close> gives a str or \<^verbatim>\<open>None\<close>; \<^verbatim>\<open>if mode and token\<close> tests
  truthiness. On success the view returns \<^verbatim>\<open>(challenge, 200)\<close>; when \<^verbatim>\<open>hub.challenge\<close>
  is absent, \<^verbatim>\<open>challenge\<close> is \<^verbatim>\<open>None\<close>, the framework refuses \<^verbatim>\<open>None\<close> as the body
  of a response with a TypeError, and the request ends with status 500.
\<close>

fun truthy_arg :: "string option \<Rightarrow> bool" where
  "truthy_arg None = False"
| "truthy_arg (Some s) = (s \<noteq> [])"

definition webhook_get :: "env \<Rightarrow> (string \<Rightarrow> string option) \<Rightarrow> event list \<times> outcome" where
  "webhook_get e args =
     (let mode = args ''hub.mode'';
          token = args ''hub.verify_token'';
          challenge = args ''hub.challenge''
      in if truthy_arg mode \<and> truthy_arg token
         then if mode = Some ''subscribe'' \<and> token = WEBHOOK_VERIFY_TOKEN e
              then ([Print (GET_webhook mode token challenge), Print Webhook_verified],
                    case challenge of
                      None \<Rightarrow> Unhandled TypeError
                    | Some c \<Rightarrow> Returned (Raw c) 200)
              else ([Print (GET_webhook mode token challenge), Print Mode_or_token_mismatch],
                    Returned (Jsonify (error_body ''Verification token mismatch'')) 403)
         else ([Print (GET_webhook mode token challenge), Print Missing_mode_or_token],
               Returned (Jsonify (error_body ''Missing mode or token'')) 400))"

section \<open>Vocabulary of the properties\<close>

text \<open>
  Reading a JSON document along a path: \<open>at_key k j = Some v\<close> says that \<open>j\<close> is an
  object that holds \<open>v\<close> under the key \<open>k\<close>; \<open>first_elem j = Some x\<close> says that \<open>j\<close> is
  an array whose first element is \<open>x\<close>.
\<close>

fun at_key :: "string \<Rightarrow> json \<Rightarrow> json option" where
  "at_key k (JObj kvs) = map_of kvs k"
| "at_key k _ = None"

fun first_elem :: "json \<Rightarrow> json option" where
  "first_elem (JArr (x # xs)) = Some x"
| "first_elem _ = None"

text \<open>The value under a key, or the default that \<^verbatim>\<open>.get\<close> is given for an absent key.\<close>

definition at_key_or :: "string \<Rightarrow> json \<Rightarrow> json \<Rightarrow> json" where
  "at_key_or k d j = (case at_key k j of None \<Rightarrow> d | Some v \<Rightarrow> v)"

text \<open>A statement raised an exception that the \<^verbatim>\<open>except\<close> clause of line 64 catches.\<close>

fun raises_caught :: "exn + 'a \<Rightarrow> bool" where
  "raises_caught (Inl x) = caught x"
| "raises_caught (Inr y) = False"

text \<open>The answer to a malformed payload: status 400, and no call made.\<close>

definition answers_malformed :: "env \<Rightarrow> json \<Rightarrow> bool" where
  "answers_malformed e data =
     (snd (webhook_post e data) = Returned (Jsonify (error_body ''Malformed payload'')) 400
      \<and> calls (fst (webhook_post e data)) = [])"

text \<open>
  A relay call that fails: \<^verbatim>\<open>requests.post\<close> raised, or the response has a status for
  which \<^verbatim>\<open>raise_for_status\<close> raises.
\<close>

fun relay_failed :: "post_result \<Rightarrow> bool" where
  "relay_failed (Request_exception content) = True"
| "relay_failed (Http_response code content parsed) = raises_for_status code"

fun is_post :: "event \<Rightarrow> bool" where
  "is_post (Call_requests_post req) = True"
| "is_post _ = False"

text \<open>
  The delivery that holds only the first message of \<open>data\<close>: the array under
  \<^verbatim>\<open>entry[0].changes[0].value.messages\<close> is cut after its first element, and nothing else
  changes.
\<close>

fun map_member :: "string \<Rightarrow> (json \<Rightarrow> json) \<Rightarrow> json \<Rightarrow> json" where
  "map_member k f (JObj kvs) = JObj (map (\<lambda>(k', v). if k' = k then (k', f v) else (k', v)) kvs)"
| "map_member k f j = j"

fun map_first :: "(json \<Rightarrow> json) \<Rightarrow> json \<Rightarrow> json" where
  "map_first f (JArr (x # xs)) = JArr (f x # xs)"
| "map_first f j = j"

fun keep_first :: "json \<Rightarrow> json" where
  "keep_first (JArr (x # xs)) = JArr [x]"
| "keep_first j = j"

definition only_first_message :: "json \<Rightarrow> json" where
  "only_first_message data =
     map_member ''entry'' (map_first (map_member ''changes'' (map_first
       (map_member ''value'' (map_member ''messages'' keep_first))))) data"

text \<open>The stages of the descent, for the proofs.\<close>

definition parse_value :: "json \<Rightarrow> exn + (json \<times> json)" where
  "parse_value val =
     then_do (py_get val ''messages'' (JArr [JObj []])) (\<lambda>messages.
     then_do (py_index0 messages) (\<lambda>message_object.
     then_do (py_get val ''metadata'' (JObj [])) (\<lambda>metadata.
     Inr (message_object, metadata))))"

definition parse_changes :: "json \<Rightarrow> exn + (json \<times> json)" where
  "parse_changes changes = then_do (py_get changes ''value'' (JObj [])) parse_value"

definition parse_entry0 :: "json \<Rightarrow> exn + (json \<times> json)" where
  "parse_entry0 entry0 =
     then_do (py_get entry0 ''changes'' (JArr [JObj []])) (\<lambda>changes_list.
     then_do (py_index0 changes_list) parse_changes)"

subsection \<open>Concrete requests and environments\<close>

definition message_of :: "json \<Rightarrow> json \<Rightarrow> json \<Rightarrow> json" where
  "message_of f i t =
     JObj [(''from'', f), (''id'', i), (''type'', JStr ''text''), (''text'', JObj [(''body'', t)])]"

definition delivery_of :: "json \<Rightarrow> json \<Rightarrow> json" where
  "delivery_of metadata messages =
     JObj [(''object'', JStr ''whatsapp_business_account''),
           (''entry'', JArr [JObj [(''id'', JStr ''102290129340398''),
              (''changes'', JArr [JObj [(''field'', JStr ''messages''),
                 (''value'', JObj [(''messaging_product'', JStr ''whatsapp''),
                                   (''metadata'', metadata),
                                   (''messages'', messages)])]])]])]"

definition metadata_of :: "json \<Rightarrow> json" where
  "metadata_of p = JObj [(''display_phone_number'', JStr ''15550783881''), (''phone_number_id'', p)]"

definition hello_delivery :: json where
  "hello_delivery =
     delivery_of (metadata_of (JStr ''106540352242922''))
       (JArr [message_of (JStr ''16505551234'') (JStr ''wamid.A1'') (JStr ''halo'')])"



definition status_delivery :: json where
  "status_delivery =
     JObj [(''object'', JStr ''whatsapp_business_account''),
           (''entry'', JArr [JObj [(''id'', JStr ''102290129340398''),
              (''changes'', JArr [JObj [(''field'', JStr ''messages''),
                 (''value'', JObj [(''messaging_product'', JStr ''whatsapp''),
                                   (''metadata'', metadata_of (JStr ''106540352242922'')),
                                   (''statuses'', JArr [JObj [(''status'', JStr ''read'')]])])]])]])]"

definition value_delivery :: "json \<Rightarrow> json" where
  "value_delivery val = JObj [(''entry'', JArr [JObj [(''changes'', JArr [JObj [(''value'', val)]])]])]"

definition two_message_delivery :: json where
  "two_message_delivery =
     delivery_of (metadata_of (JStr ''106540352242922''))
       (JArr [message_of (JStr ''16505551234'') (JStr ''wamid.A1'') (JStr ''halo''),
              message_of (JStr ''16505551234'') (JStr ''wamid.A2'') (JStr ''jam buka?'')])"

definition env_with ::
  "(string \<Rightarrow> json \<Rightarrow> completion_result) option \<Rightarrow> (request \<Rightarrow> post_result) \<Rightarrow> env" where
  "env_with cl post =
     \<lparr>WEBHOOK_VERIFY_TOKEN = Some ''s3cret'', GRAPH_API_TOKEN = Some ''EAAG'',
      client = cl, requests_post = post\<rparr>"

definition failing_env :: env where
  "failing_env = env_with (Some (\<lambda>model messages. Raised)) (\<lambda>req. Http_response 500 ''oops'' None)"

definition unavailable_env :: env where
  "unavailable_env = env_with None (\<lambda>req. Request_exception None)"

definition null_content_env :: env where
  "null_content_env = env_with (Some (\<lambda>model messages. Content None)) (\<lambda>req. Request_exception None)"

definition null_text_delivery :: json where
  "null_text_delivery =
     delivery_of (metadata_of (JStr ''106540352242922''))
       (JArr [JObj [(''from'', JStr ''16505551234''), (''id'', JStr ''wamid.A1''),
                    (''type'', JStr ''text''), (''text'', JNull)]])"

definition multiple_choices_env :: env where
  "multiple_choices_env =
     env_with (Some (\<lambda>model messages. Content (Some ''Halo!'')))
       (\<lambda>req. Http_response 300 ''{}'' (Some (JObj [])))"

definition query :: "string option \<Rightarrow> string option \<Rightarrow> string option \<Rightarrow> string \<Rightarrow> string option" where
  "query mode token challenge name =
     (if name = ''hub.mode'' then mode
      else if name = ''hub.verify_token'' then token
      else if name = ''hub.challenge'' then challenge
      else None)"

section \<open>Properties\<close>

subsection \<open>Calls of a run\<close>

lemma calls_Nil [simp]: "calls [] = []"
  by (simp add: calls_def)

lemma calls_Cons [simp]: "calls (ev # evs) = (if is_call ev then ev # calls evs else calls evs)"
  by (simp add: calls_def)

lemma calls_append [simp]: "calls (xs @ ys) = calls xs @ calls ys"
  by (simp add: calls_def)

lemma in_calls_in_events: "ev \<in> set (calls evs) \<Longrightarrow> ev \<in> set evs"
  by (simp add: calls_def)

lemma calls_post_logged [simp]:
  "calls (post_logged post req ok_line error_line) = [Call_requests_post req]"
  by (simp add: post_logged_def split: post_result.split option.split)

lemma calls_get_chat_completion:
  "calls (fst (get_chat_completion cl t)) =
     (case cl of None \<Rightarrow> []
      | Some create \<Rightarrow> [Call_chat_completions_create ''gpt-4o-mini'' (chat_messages t)])"
  by (simp add: get_chat_completion_def split: option.split completion_result.split)

lemma calls_reply_and_mark_read:
  "calls (reply_and_mark_read e p t f i) =
     (case client e of None \<Rightarrow> []
      | Some create \<Rightarrow> [Call_chat_completions_create ''gpt-4o-mini'' (chat_messages t)])
     @ [Call_requests_post \<lparr>graph_messages_url = p, bearer = GRAPH_API_TOKEN e,
           payload = payload_reply f (snd (get_chat_completion (client e) t)) i\<rparr>,
        Call_requests_post \<lparr>graph_messages_url = p, bearer = GRAPH_API_TOKEN e,
           payload = payload_read i\<rparr>]"
  by (simp add: reply_and_mark_read_def Let_def split_beta calls_get_chat_completion)

lemma posts_post_logged [simp]:
  "filter is_post (post_logged post req ok_line error_line) = [Call_requests_post req]"
  by (simp add: post_logged_def split: post_result.split option.split)

lemma posts_get_chat_completion [simp]:
  "filter is_post (fst (get_chat_completion cl t)) = []"
  by (simp add: get_chat_completion_def split: option.split completion_result.split)

lemma posts_reply_and_mark_read:
  "filter is_post (reply_and_mark_read e p t f i) =
     [Call_requests_post \<lparr>graph_messages_url = p, bearer = GRAPH_API_TOKEN e,
        payload = payload_reply f (snd (get_chat_completion (client e) t)) i\<rparr>,
      Call_requests_post \<lparr>graph_messages_url = p, bearer = GRAPH_API_TOKEN e,
        payload = payload_read i\<rparr>]"
  by (simp add: reply_and_mark_read_def Let_def split_beta)

lemma failure_logged:
  "relay_failed (post req) \<Longrightarrow> Print error_line \<in> set (post_logged post req ok_line error_line)"
  by (cases "post req") (auto simp: post_logged_def split: option.split)

lemma errors_in_reply_and_mark_read:
  "(relay_failed (requests_post e \<lparr>graph_messages_url = p, bearer = GRAPH_API_TOKEN e,
        payload = payload_reply f (snd (get_chat_completion (client e) t)) i\<rparr>)
      \<longrightarrow> Print Error_sending_reply \<in> set (reply_and_mark_read e p t f i))
   \<and> (relay_failed (requests_post e \<lparr>graph_messages_url = p, bearer = GRAPH_API_TOKEN e,
        payload = payload_read i\<rparr>)
      \<longrightarrow> Print Error_marking_read \<in> set (reply_and_mark_read e p t f i))"
  by (simp add: reply_and_mark_read_def Let_def split_beta failure_logged)

subsection \<open>Python values\<close>

lemma then_do_Inl [simp]: "then_do (Inl x) k = Inl x"
  by (simp add: then_do_def)

lemma then_do_Inr [simp]: "then_do (Inr y) k = k y"
  by (simp add: then_do_def)

lemma py_get_not_dict: "\<not> is_dict j \<Longrightarrow> py_get j k d = Inl AttributeError"
  by (cases j) simp_all

lemma py_get_at_key_or: "is_dict j \<Longrightarrow> py_get j k d = Inr (at_key_or k d j)"
  by (cases j) (simp_all add: at_key_or_def)

lemma py_get_at_key: "at_key k j = Some v \<Longrightarrow> py_get j k d = Inr v"
  by (cases j) simp_all

lemma py_index0_first_elem: "first_elem j = Some x \<Longrightarrow> py_index0 j = Inr x"
  by (cases j rule: first_elem.cases) simp_all

lemma py_index0_scalar:
  "\<not> is_list j \<Longrightarrow> \<not> is_dict j \<Longrightarrow> \<not> is_str j \<Longrightarrow> py_index0 j = Inl TypeError"
  by (cases j) simp_all

lemma py_index0_str:
  "is_str j \<Longrightarrow> py_index0 j = Inl IndexError \<or> (\<exists>c. py_index0 j = Inr (JStr [c]))"
  by (cases j rule: py_index0.cases) simp_all

text \<open>Indexing a value that is neither a list nor a dict, then calling \<^verbatim>\<open>.get\<close> on the result.\<close>

lemma index_then_get_caught:
  assumes "\<not> is_list j" and "\<not> is_dict j" and "\<And>c. k (JStr [c]) = Inl AttributeError"
  shows "raises_caught (then_do (py_index0 j) k)"
proof (cases "is_str j")
  case True
  then show ?thesis
    using py_index0_str [of j] assms(3) by auto
next
  case False
  then show ?thesis
    using py_index0_scalar [of j] assms(1,2) by simp
qed

subsection \<open>The descent and the handler\<close>

lemma parse_payload_stages:
  "parse_payload data =
     then_do (py_get data ''entry'' (JArr [JObj []])) (\<lambda>entry.
     then_do (py_index0 entry) parse_entry0)"
  by (simp add: parse_payload_def parse_entry0_def [abs_def] parse_changes_def [abs_def]
      parse_value_def [abs_def])

lemma parse_changes_not_dict: "\<not> is_dict ch0 \<Longrightarrow> parse_changes ch0 = Inl AttributeError"
  by (simp add: parse_changes_def py_get_not_dict)

lemma parse_entry0_not_dict: "\<not> is_dict en0 \<Longrightarrow> parse_entry0 en0 = Inl AttributeError"
  by (simp add: parse_entry0_def py_get_not_dict)

lemma parse_value_defaults:
  assumes "is_dict v" and "first_elem (at_key_or ''messages'' (JArr [JObj []]) v) = Some mo"
  shows "parse_value v = Inr (mo, at_key_or ''metadata'' (JObj []) v)"
  using assms by (simp add: parse_value_def py_get_at_key_or py_index0_first_elem)

lemma parse_entry0_defaults:
  assumes "is_dict en0" and "first_elem (at_key_or ''changes'' (JArr [JObj []]) en0) = Some ch0"
    and "is_dict ch0"
  shows "parse_entry0 en0 = parse_value (at_key_or ''value'' (JObj []) ch0)"
  using assms
  by (simp add: parse_entry0_def parse_changes_def py_get_at_key_or py_index0_first_elem)

lemma parse_delivery_of:
  "parse_payload (delivery_of md (JArr (m # ms))) = Inr (m, md)"
  by (simp add: delivery_of_def parse_payload_def)

lemma is_text_message_of: "is_text_message (message_of f i t) = Inr True"
  by (simp add: message_of_def is_text_message_def)

lemma message_fields_of:
  "message_fields (message_of f i t) (metadata_of p) = Inr (p, t, f, i)"
  by (simp add: message_of_def metadata_of_def message_fields_def)

lemma parse_hello_delivery:
  "parse_payload hello_delivery =
     Inr (message_of (JStr ''16505551234'') (JStr ''wamid.A1'') (JStr ''halo''),
          metadata_of (JStr ''106540352242922''))"
  by (simp add: hello_delivery_def parse_delivery_of)


lemma is_text_message_not_dict:
  "\<not> is_dict m \<Longrightarrow> is_text_message m = Inr False \<or> is_text_message m = Inl AttributeError"
  by (simp add: is_text_message_def py_get_not_dict)

lemma message_fields_not_dict:
  "\<not> is_dict md \<Longrightarrow> message_fields m md = Inl AttributeError"
  by (simp add: message_fields_def py_get_not_dict)

lemma handle_message_wrong_type:
  assumes "\<not> is_dict m \<or> \<not> is_dict md"
  shows "calls (fst (handle_message e m md)) = []"
proof (cases "is_dict m")
  case False
  then show ?thesis
    using is_text_message_not_dict [of m] by (auto simp: handle_message_def)
next
  case True
  with assms have "message_fields m md = Inl AttributeError"
    by (simp add: message_fields_not_dict)
  then show ?thesis
    by (simp add: handle_message_def split: sum.split bool.split)
qed

lemma handle_message_not_malformed:
  "snd (handle_message e m md) \<noteq> Returned (Jsonify (error_body ''Malformed payload'')) 400"
  by (simp add: handle_message_def error_body_def success_body_def
      split: sum.split bool.split prod.split)

lemma webhook_post_parsed:
  "parse_payload data = Inr (m, md) \<Longrightarrow>
     webhook_post e data =
       (Print (Incoming_webhook_message data) # fst (handle_message e m md),
        snd (handle_message e m md))"
  by (simp add: webhook_post_def split_beta)

lemma webhook_post_actionable:
  assumes "parse_payload data = Inr (m, md)"
    and "is_text_message m = Inr True"
    and "message_fields m md = Inr (p, t, f, i)"
    and "truthy p" and "truthy t" and "truthy f" and "truthy i"
  shows "webhook_post e data =
           (Print (Incoming_webhook_message data) # reply_and_mark_read e p t f i,
            Returned (Jsonify success_body) 200)"
  using assms by (simp add: webhook_post_def handle_message_def)

lemma webhook_post_depends_on_parse:
  assumes "parse_payload data' = parse_payload data"
  shows "snd (webhook_post e data') = snd (webhook_post e data)"
    and "tl (fst (webhook_post e data')) = tl (fst (webhook_post e data))"
    and "calls (fst (webhook_post e data')) = calls (fst (webhook_post e data))"
  using assms by (simp_all add: webhook_post_def split: sum.split prod.split)

lemma caught_answers_malformed:
  "raises_caught (parse_payload data) \<Longrightarrow> answers_malformed e data"
  by (cases "parse_payload data") (simp_all add: answers_malformed_def webhook_post_def)

lemma parsed_not_malformed:
  "parse_payload data = Inr (m, md) \<Longrightarrow> \<not> answers_malformed e data"
  by (simp add: answers_malformed_def webhook_post_parsed handle_message_not_malformed)

lemma raised_no_calls:
  "parse_payload data = Inl x \<Longrightarrow> calls (fst (webhook_post e data)) = []"
  by (simp add: webhook_post_def)

subsection \<open>Cutting the message array\<close>

lemma map_of_map_member:
  "map_of (map (\<lambda>(k', v). if k' = k then (k', f v) else (k', v)) kvs) k' =
     (if k' = k then map_option f (map_of kvs k') else map_of kvs k')"
  by (induction kvs) auto

lemma then_do_get_map_member:
  assumes "\<And>x. P (g x) = P x"
  shows "then_do (py_get (map_member k g j) k d) P = then_do (py_get j k d) P"
  using assms by (cases j) (simp_all add: map_of_map_member split: option.split)

lemma then_do_index0_map_first:
  assumes "\<And>x. P (g x) = P x"
  shows "then_do (py_index0 (map_first g j)) P = then_do (py_index0 j) P"
proof (cases j)
  case (JArr xs)
  then show ?thesis
    using assms by (cases xs) simp_all
qed simp_all

lemma py_index0_keep_first: "py_index0 (keep_first j) = py_index0 j"
  by (cases j rule: keep_first.cases) simp_all

lemma parse_value_keep_first:
  "parse_value (map_member ''messages'' keep_first v) = parse_value v"
proof (cases v)
  case (JObj kvs)
  then show ?thesis
    by (simp add: parse_value_def map_of_map_member py_index0_keep_first split: option.split)
qed (simp_all add: parse_value_def)

lemma parse_changes_keep_first:
  "parse_changes (map_member ''value'' (map_member ''messages'' keep_first) ch0) = parse_changes ch0"
  unfolding parse_changes_def
  by (rule then_do_get_map_member) (rule parse_value_keep_first)

lemma parse_entry0_keep_first:
  "parse_entry0 (map_member ''changes''
      (map_first (map_member ''value'' (map_member ''messages'' keep_first))) en0)
   = parse_entry0 en0"
  unfolding parse_entry0_def
  by (rule then_do_get_map_member, rule then_do_index0_map_first)
    (rule parse_changes_keep_first)

lemma parse_only_first_message: "parse_payload (only_first_message data) = parse_payload data"
  unfolding parse_payload_stages only_first_message_def
  by (rule then_do_get_map_member, rule then_do_index0_map_first)
    (rule parse_entry0_keep_first)

subsection \<open>Exceptions that no clause catches\<close>

text \<open>
  A dict where the descent indexes an array raises KeyError, which the \<^verbatim>\<open>except\<close> clause
  does not list; a truthy \<^verbatim>\<open>messages[0]\<close> that is not a dict, and a \<^verbatim>\<open>metadata\<close> or
  \<^verbatim>\<open>text\<close> of a text message that is not a dict, raise AttributeError after the
  \<^verbatim>\<open>try\<close> block. The exception leaves the handler, and no call has been made.
\<close>

lemma dict_for_entry_array_unhandled:
  "webhook_post e (JObj [(''entry'', JObj [])])
     = ([Print (Incoming_webhook_message (JObj [(''entry'', JObj [])]))], Unhandled KeyError)"
  by (simp add: webhook_post_def parse_payload_def)

lemma string_for_message_unhandled:
  "webhook_post e (value_delivery (JObj [(''messages'', JArr [JStr ''hi''])]))
     = ([Print (Incoming_webhook_message (value_delivery (JObj [(''messages'', JArr [JStr ''hi''])])))],
        Unhandled AttributeError)"
  by (simp add: webhook_post_def parse_payload_def value_delivery_def handle_message_def
      is_text_message_def)

lemma null_for_metadata_unhandled:
  "snd (webhook_post e (delivery_of JNull
          (JArr [message_of (JStr ''16505551234'') (JStr ''wamid.A1'') (JStr ''halo'')])))
     = Unhandled AttributeError"
  by (simp add: webhook_post_parsed [OF parse_delivery_of] handle_message_def
      is_text_message_of message_fields_def)

section \<open>The claims\<close>

text \<open>
  In what follows a body is an actionable text delivery when the descent returns
  \<open>(m, md)\<close>, the condition of line 69 holds of \<open>m\<close>, lines 70 to 73 read the four values
  \<open>(p, t, f, i)\<close> (phone number id, text body, sender, message id) from \<open>m\<close> and \<open>md\<close>,
  and the four are truthy. The statements write out the payloads and the bodies of the
  responses as the source builds them.
\<close>

subsection \<open>C1\<close>

text \<open>
  C1, as the code has it. An actionable text delivery makes the handler ask the
  completion provider once, with the text body as the only message, when the client
  exists, and not at all when the client is \<^verbatim>\<open>None\<close> (the reply is then the fixed
  fallback); then it posts the reply to the relay once, then the read mark once, in that
  order, and it returns 200 with \<^verbatim>\<open>{"status": "success"}\<close>, whatever the provider
  and the relay answer.
\<close>

theorem text_delivery_calls_in_order:
  assumes "parse_payload data = Inr (m, md)"
    and "is_text_message m = Inr True"
    and "message_fields m md = Inr (p, t, f, i)"
    and "truthy p" and "truthy t" and "truthy f" and "truthy i"
  shows "snd (webhook_post e data) = Returned (Jsonify (JObj [(''status'', JStr ''success'')])) 200
       \<and> calls (fst (webhook_post e data)) =
           (case client e of None \<Rightarrow> []
            | Some create \<Rightarrow>
                [Call_chat_completions_create ''gpt-4o-mini''
                   (JArr [JObj [(''role'', JStr ''user''), (''content'', t)]])])
           @ [Call_requests_post \<lparr>graph_messages_url = p, bearer = GRAPH_API_TOKEN e,
                 payload = JObj [(''messaging_product'', JStr ''whatsapp''),
                                 (''to'', f),
                                 (''text'', JObj [(''body'',
                                    str_or_none (snd (get_chat_completion (client e) t)))]),
                                 (''context'', JObj [(''message_id'', i)])]\<rparr>,
              Call_requests_post \<lparr>graph_messages_url = p, bearer = GRAPH_API_TOKEN e,
                 payload = JObj [(''messaging_product'', JStr ''whatsapp''),
                                 (''status'', JStr ''read''),
                                 (''message_id'', i)]\<rparr>]"
  using webhook_post_actionable [OF assms, of e] calls_reply_and_mark_read [of e p t f i]
  unfolding success_body_def chat_messages_def payload_reply_def payload_read_def
  by simp

theorem text_delivery_calls_in_order_witness:
  "parse_payload hello_delivery =
     Inr (message_of (JStr ''16505551234'') (JStr ''wamid.A1'') (JStr ''halo''),
          metadata_of (JStr ''106540352242922''))
   \<and> is_text_message (message_of (JStr ''16505551234'') (JStr ''wamid.A1'') (JStr ''halo'')) = Inr True
   \<and> message_fields (message_of (JStr ''16505551234'') (JStr ''wamid.A1'') (JStr ''halo''))
        (metadata_of (JStr ''106540352242922''))
      = Inr (JStr ''106540352242922'', JStr ''halo'', JStr ''16505551234'', JStr ''wamid.A1'')
   \<and> truthy (JStr ''106540352242922'') \<and> truthy (JStr ''halo'')
   \<and> truthy (JStr ''16505551234'') \<and> truthy (JStr ''wamid.A1'')
   \<and> snd (webhook_post failing_env hello_delivery)
       = Returned (Jsonify (JObj [(''status'', JStr ''success'')])) 200
   \<and> calls (fst (webhook_post failing_env hello_delivery)) =
       [Call_chat_completions_create ''gpt-4o-mini''
          (JArr [JObj [(''role'', JStr ''user''), (''content'', JStr ''halo'')]]),
        Call_requests_post \<lparr>graph_messages_url = JStr ''106540352242922'', bearer = Some ''EAAG'',
           payload = JObj [(''messaging_product'', JStr ''whatsapp''),
                           (''to'', JStr ''16505551234''),
                           (''text'', JObj [(''body'',
                              JStr ''Ada kesalahan dalam memproses permintaan Anda. Mohon coba lagi nanti.'')]),
                           (''context'', JObj [(''message_id'', JStr ''wamid.A1'')])]\<rparr>,
        Call_requests_post \<lparr>graph_messages_url = JStr ''106540352242922'', bearer = Some ''EAAG'',
           payload = JObj [(''messaging_product'', JStr ''whatsapp''),
                           (''status'', JStr ''read''),
                           (''message_id'', JStr ''wamid.A1'')]\<rparr>]"
proof -
  note a = parse_hello_delivery
  have b: "is_text_message (message_of (JStr ''16505551234'') (JStr ''wamid.A1'') (JStr ''halo'')) = Inr True"
    by (rule is_text_message_of)
  have c: "message_fields (message_of (JStr ''16505551234'') (JStr ''wamid.A1'') (JStr ''halo''))
        (metadata_of (JStr ''106540352242922''))
      = Inr (JStr ''106540352242922'', JStr ''halo'', JStr ''16505551234'', JStr ''wamid.A1'')"
    by (rule message_fields_of)
  have d: "truthy (JStr ''106540352242922'')" "truthy (JStr ''halo'')"
    "truthy (JStr ''16505551234'')" "truthy (JStr ''wamid.A1'')"
    by simp_all
  have r: "snd (get_chat_completion (client failing_env) (JStr ''halo''))
      = Some ''Ada kesalahan dalam memproses permintaan Anda. Mohon coba lagi nanti.''"
    by (simp add: failing_env_def env_with_def get_chat_completion_def failed_reply_def)
  have run: "snd (webhook_post failing_env hello_delivery)
       = Returned (Jsonify (JObj [(''status'', JStr ''success'')])) 200
   \<and> calls (fst (webhook_post failing_env hello_delivery)) =
       [Call_chat_completions_create ''gpt-4o-mini''
          (JArr [JObj [(''role'', JStr ''user''), (''content'', JStr ''halo'')]]),
        Call_requests_post \<lparr>graph_messages_url = JStr ''106540352242922'', bearer = Some ''EAAG'',
           payload = JObj [(''messaging_product'', JStr ''whatsapp''),
                           (''to'', JStr ''16505551234''),
                           (''text'', JObj [(''body'',
                              JStr ''Ada kesalahan dalam memproses permintaan Anda. Mohon coba lagi nanti.'')]),
                           (''context'', JObj [(''message_id'', JStr ''wamid.A1'')])]\<rparr>,
        Call_requests_post \<lparr>graph_messages_url = JStr ''106540352242922'', bearer = Some ''EAAG'',
           payload = JObj [(''messaging_product'', JStr ''whatsapp''),
                           (''status'', JStr ''read''),
                           (''message_id'', JStr ''wamid.A1'')]\<rparr>]"
    using text_delivery_calls_in_order [OF a b c d, of failing_env]
    unfolding r by (simp add: failing_env_def env_with_def)
  show ?thesis
    using a b c d run by simp
qed

text \<open>
  The claim as stated fails when the client is \<^verbatim>\<open>None\<close>: line 34 returns the fallback,
  and the delivery is answered with the two relay calls and no request to the provider.
\<close>

theorem no_client_no_provider_request_counterexample:
  "client unavailable_env = None
   \<and> snd (webhook_post unavailable_env hello_delivery)
       = Returned (Jsonify (JObj [(''status'', JStr ''success'')])) 200
   \<and> calls (fst (webhook_post unavailable_env hello_delivery)) =
       [Call_requests_post \<lparr>graph_messages_url = JStr ''106540352242922'', bearer = Some ''EAAG'',
           payload = JObj [(''messaging_product'', JStr ''whatsapp''),
                           (''to'', JStr ''16505551234''),
                           (''text'', JObj [(''body'',
                              JStr ''Maaf sedang ada kendala pada Asisten AI kami. Mohon ditunggu hingga kami menghubungi Anda kembali...'')]),
                           (''context'', JObj [(''message_id'', JStr ''wamid.A1'')])]\<rparr>,
        Call_requests_post \<lparr>graph_messages_url = JStr ''106540352242922'', bearer = Some ''EAAG'',
           payload = JObj [(''messaging_product'', JStr ''whatsapp''),
                           (''status'', JStr ''read''),
                           (''message_id'', JStr ''wamid.A1'')]\<rparr>]"
proof -
  have d: "truthy (JStr ''106540352242922'')" "truthy (JStr ''halo'')"
    "truthy (JStr ''16505551234'')" "truthy (JStr ''wamid.A1'')"
    by simp_all
  have w: "webhook_post unavailable_env hello_delivery =
     (Print (Incoming_webhook_message hello_delivery)
        # reply_and_mark_read unavailable_env (JStr ''106540352242922'') (JStr ''halo'')
            (JStr ''16505551234'') (JStr ''wamid.A1''),
      Returned (Jsonify success_body) 200)"
    by (rule webhook_post_actionable [OF parse_hello_delivery is_text_message_of message_fields_of d])
  show ?thesis
    unfolding w
    by (simp add: reply_and_mark_read_def get_chat_completion_def post_logged_def
        unavailable_env_def env_with_def success_body_def payload_reply_def payload_read_def
        unavailable_reply_def)
qed

subsection \<open>C2\<close>

text \<open>
  C2, as the code has it. A wrong type that a statement of the descent runs into is
  answered with 400 and \<^verbatim>\<open>Malformed payload\<close>, and no call is made: the body,
  \<^verbatim>\<open>entry[0]\<close>, \<^verbatim>\<open>changes[0]\<close> or \<^verbatim>\<open>value\<close> is not an object; \<^verbatim>\<open>entry\<close> or \<^verbatim>\<open>changes\<close> is
  neither an array nor an object; \<^verbatim>\<open>messages\<close> is null, a boolean or a number. And
  whatever the place of a wrong type on the path, also at \<^verbatim>\<open>messages[0]\<close> and at
  \<^verbatim>\<open>metadata\<close>, which the descent does not inspect, the handler makes no call: either a
  statement of the descent raises, or the message or the metadata that the descent
  returns is not an object.
\<close>

theorem wrong_type_in_descent_rejected:
  "(\<not> is_dict data
     \<or> (at_key ''entry'' data = Some en \<and>
         ((\<not> is_list en \<and> \<not> is_dict en)
          \<or> (first_elem en = Some en0 \<and>
              (\<not> is_dict en0
               \<or> (at_key ''changes'' en0 = Some ch \<and>
                   ((\<not> is_list ch \<and> \<not> is_dict ch)
                    \<or> (first_elem ch = Some ch0 \<and>
                        (\<not> is_dict ch0
                         \<or> (at_key ''value'' ch0 = Some v \<and>
                             (\<not> is_dict v
                              \<or> (at_key ''messages'' v = Some ms
                                  \<and> \<not> is_list ms \<and> \<not> is_dict ms \<and> \<not> is_str ms)))))))))))
    \<longrightarrow> answers_malformed e data)
   \<and> (parse_payload body = Inl x
        \<or> (parse_payload body = Inr (m, md) \<and> (\<not> is_dict m \<or> \<not> is_dict md))
    \<longrightarrow> calls (fst (webhook_post e body)) = [])"
proof (intro conjI impI)
  assume shape: "\<not> is_dict data
     \<or> (at_key ''entry'' data = Some en \<and>
         ((\<not> is_list en \<and> \<not> is_dict en)
          \<or> (first_elem en = Some en0 \<and>
              (\<not> is_dict en0
               \<or> (at_key ''changes'' en0 = Some ch \<and>
                   ((\<not> is_list ch \<and> \<not> is_dict ch)
                    \<or> (first_elem ch = Some ch0 \<and>
                        (\<not> is_dict ch0
                         \<or> (at_key ''value'' ch0 = Some v \<and>
                             (\<not> is_dict v
                              \<or> (at_key ''messages'' v = Some ms
                                  \<and> \<not> is_list ms \<and> \<not> is_dict ms \<and> \<not> is_str ms)))))))))))"
  have value_level: "raises_caught (parse_changes ch0)"
    if "\<not> is_dict ch0
        \<or> (at_key ''value'' ch0 = Some v \<and>
            (\<not> is_dict v
             \<or> (at_key ''messages'' v = Some ms
                 \<and> \<not> is_list ms \<and> \<not> is_dict ms \<and> \<not> is_str ms)))"
    using that
    by (auto simp: parse_changes_def parse_value_def py_get_not_dict py_get_at_key
        py_index0_scalar)
  have changes_level: "raises_caught (parse_entry0 en0)"
    if "\<not> is_dict en0
        \<or> (at_key ''changes'' en0 = Some ch \<and>
            ((\<not> is_list ch \<and> \<not> is_dict ch)
             \<or> (first_elem ch = Some ch0 \<and> raises_caught (parse_changes ch0))))"
    using that
    by (auto simp: parse_entry0_def py_get_not_dict py_get_at_key py_index0_first_elem
        intro!: index_then_get_caught parse_changes_not_dict)
  have entry_level: "raises_caught (parse_payload data)"
    if "\<not> is_dict data
        \<or> (at_key ''entry'' data = Some en \<and>
            ((\<not> is_list en \<and> \<not> is_dict en)
             \<or> (first_elem en = Some en0 \<and> raises_caught (parse_entry0 en0))))"
    using that
    by (auto simp: parse_payload_stages py_get_not_dict py_get_at_key py_index0_first_elem
        intro!: index_then_get_caught parse_entry0_not_dict)
  show "answers_malformed e data"
    using shape
    by (intro caught_answers_malformed entry_level) (use changes_level value_level in blast)
next
  assume "parse_payload body = Inl x
        \<or> (parse_payload body = Inr (m, md) \<and> (\<not> is_dict m \<or> \<not> is_dict md))"
  then show "calls (fst (webhook_post e body)) = []"
  proof
    assume "parse_payload body = Inl x"
    then show ?thesis
      by (rule raised_no_calls)
  next
    assume "parse_payload body = Inr (m, md) \<and> (\<not> is_dict m \<or> \<not> is_dict md)"
    then show ?thesis
      by (simp add: webhook_post_parsed handle_message_wrong_type)
  qed
qed

theorem wrong_type_in_descent_rejected_witness:
  "\<not> is_dict JNull \<and> answers_malformed failing_env JNull
   \<and> at_key ''entry'' (JObj [(''entry'', JStr ''abc'')]) = Some (JStr ''abc'')
   \<and> \<not> is_list (JStr ''abc'') \<and> \<not> is_dict (JStr ''abc'')
   \<and> answers_malformed failing_env (JObj [(''entry'', JStr ''abc'')])
   \<and> at_key ''entry'' (value_delivery (JStr ''x''))
        = Some (JArr [JObj [(''changes'', JArr [JObj [(''value'', JStr ''x'')]])]])
   \<and> first_elem (JArr [JObj [(''changes'', JArr [JObj [(''value'', JStr ''x'')]])]])
        = Some (JObj [(''changes'', JArr [JObj [(''value'', JStr ''x'')]])])
   \<and> at_key ''changes'' (JObj [(''changes'', JArr [JObj [(''value'', JStr ''x'')]])])
        = Some (JArr [JObj [(''value'', JStr ''x'')]])
   \<and> first_elem (JArr [JObj [(''value'', JStr ''x'')]]) = Some (JObj [(''value'', JStr ''x'')])
   \<and> at_key ''value'' (JObj [(''value'', JStr ''x'')]) = Some (JStr ''x'')
   \<and> \<not> is_dict (JStr ''x'')
   \<and> answers_malformed failing_env (value_delivery (JStr ''x''))
   \<and> at_key ''messages'' (JObj [(''messages'', JInt 7)]) = Some (JInt 7)
   \<and> \<not> is_list (JInt 7) \<and> \<not> is_dict (JInt 7) \<and> \<not> is_str (JInt 7)
   \<and> answers_malformed failing_env (value_delivery (JObj [(''messages'', JInt 7)]))
   \<and> parse_payload (JObj [(''entry'', JObj [])]) = Inl KeyError
   \<and> calls (fst (webhook_post failing_env (JObj [(''entry'', JObj [])]))) = []
   \<and> parse_payload (delivery_of JNull
        (JArr [message_of (JStr ''16505551234'') (JStr ''wamid.A1'') (JStr ''halo'')]))
       = Inr (message_of (JStr ''16505551234'') (JStr ''wamid.A1'') (JStr ''halo''), JNull)
   \<and> \<not> is_dict JNull
   \<and> calls (fst (webhook_post failing_env (delivery_of JNull
        (JArr [message_of (JStr ''16505551234'') (JStr ''wamid.A1'') (JStr ''halo'')])))) = []"
proof -
  note inst = wrong_type_in_descent_rejected [where e = failing_env]
  have 1: "answers_malformed failing_env JNull"
    using inst [where data = JNull] by simp
  have 2: "answers_malformed failing_env (JObj [(''entry'', JStr ''abc'')])"
    using inst [where data = "JObj [(''entry'', JStr ''abc'')]" and en = "JStr ''abc''"] by simp
  have 3: "answers_malformed failing_env (value_delivery (JStr ''x''))"
    using inst
        [where data = "value_delivery (JStr ''x'')"
          and en = "JArr [JObj [(''changes'', JArr [JObj [(''value'', JStr ''x'')]])]]"
          and ?en0.0 = "JObj [(''changes'', JArr [JObj [(''value'', JStr ''x'')]])]"
          and ch = "JArr [JObj [(''value'', JStr ''x'')]]"
          and ?ch0.0 = "JObj [(''value'', JStr ''x'')]"
          and v = "JStr ''x''"]
    by (simp add: value_delivery_def)
  have 4: "answers_malformed failing_env (value_delivery (JObj [(''messages'', JInt 7)]))"
    using inst
        [where data = "value_delivery (JObj [(''messages'', JInt 7)])"
          and en = "JArr [JObj [(''changes'', JArr [JObj [(''value'', JObj [(''messages'', JInt 7)])]])]]"
          and ?en0.0 = "JObj [(''changes'', JArr [JObj [(''value'', JObj [(''messages'', JInt 7)])]])]"
          and ch = "JArr [JObj [(''value'', JObj [(''messages'', JInt 7)])]]"
          and ?ch0.0 = "JObj [(''value'', JObj [(''messages'', JInt 7)])]"
          and v = "JObj [(''messages'', JInt 7)]"
          and ms = "JInt 7"]
    by (simp add: value_delivery_def)
  have k: "parse_payload (JObj [(''entry'', JObj [])]) = Inl KeyError"
    by (simp add: parse_payload_def)
  have 5: "calls (fst (webhook_post failing_env (JObj [(''entry'', JObj [])]))) = []"
    using inst [where body = "JObj [(''entry'', JObj [])]" and x = KeyError] k by simp
  have n: "parse_payload (delivery_of JNull
        (JArr [message_of (JStr ''16505551234'') (JStr ''wamid.A1'') (JStr ''halo'')]))
       = Inr (message_of (JStr ''16505551234'') (JStr ''wamid.A1'') (JStr ''halo''), JNull)"
    by (rule parse_delivery_of)
  have 6: "calls (fst (webhook_post failing_env (delivery_of JNull
        (JArr [message_of (JStr ''16505551234'') (JStr ''wamid.A1'') (JStr ''halo'')])))) = []"
    using inst [where body = "delivery_of JNull
        (JArr [message_of (JStr ''16505551234'') (JStr ''wamid.A1'') (JStr ''halo'')])"
        and m = "message_of (JStr ''16505551234'') (JStr ''wamid.A1'') (JStr ''halo'')"
        and md = JNull] n
    by simp
  show ?thesis
    using 1 2 3 4 5 6 k n by (simp add: value_delivery_def)
qed

text \<open>
  The claim as stated fails where the descent does not look: a number for \<^verbatim>\<open>metadata\<close>
  in a delivery without message passes the descent, and the handler answers 200.
\<close>

theorem unchecked_wrong_type_counterexample:
  "at_key ''metadata'' (JObj [(''metadata'', JInt 5)]) = Some (JInt 5)
   \<and> \<not> is_dict (JInt 5)
   \<and> parse_payload (value_delivery (JObj [(''metadata'', JInt 5)])) = Inr (JObj [], JInt 5)
   \<and> webhook_post failing_env (value_delivery (JObj [(''metadata'', JInt 5)]))
       = ([Print (Incoming_webhook_message (value_delivery (JObj [(''metadata'', JInt 5)])))],
          Returned (Jsonify success_body) 200)
   \<and> \<not> answers_malformed failing_env (value_delivery (JObj [(''metadata'', JInt 5)]))"
  by (simp add: value_delivery_def parse_payload_def webhook_post_def handle_message_def
      is_text_message_def answers_malformed_def)

subsection \<open>C3\<close>

text \<open>
  C3, as the code has it. Where a key of the path is absent, the descent reads the
  default of its \<^verbatim>\<open>.get\<close> in its place (\<^verbatim>\<open>[{}]\<close> for \<^verbatim>\<open>entry\<close>, \<^verbatim>\<open>changes\<close> and
  \<^verbatim>\<open>messages\<close>, \<^verbatim>\<open>{}\<close> for \<^verbatim>\<open>value\<close> and \<^verbatim>\<open>metadata\<close>) and goes on: when each level,
  read so, is an object, or an array with a first element, the descent returns the
  message and the metadata read so, and the body is not reported as malformed. An
  array that is present and empty is not replaced by a default: indexing it raises
  IndexError, and the body is reported as malformed with status 400.
\<close>

theorem absent_keys_read_as_defaults:
  "(is_dict data
      \<and> first_elem (at_key_or ''entry'' (JArr [JObj []]) data) = Some en0 \<and> is_dict en0
      \<and> first_elem (at_key_or ''changes'' (JArr [JObj []]) en0) = Some ch0 \<and> is_dict ch0
      \<and> is_dict (at_key_or ''value'' (JObj []) ch0)
      \<and> first_elem (at_key_or ''messages'' (JArr [JObj []]) (at_key_or ''value'' (JObj []) ch0))
          = Some mo
    \<longrightarrow> parse_payload data
          = Inr (mo, at_key_or ''metadata'' (JObj []) (at_key_or ''value'' (JObj []) ch0))
        \<and> \<not> answers_malformed e data)
   \<and> (at_key ''entry'' body = Some en \<and>
        (en = JArr []
         \<or> (first_elem en = Some en1 \<and> at_key ''changes'' en1 = Some ch \<and>
             (ch = JArr []
              \<or> (first_elem ch = Some ch1 \<and> at_key ''value'' ch1 = Some v
                  \<and> at_key ''messages'' v = Some (JArr [])))))
    \<longrightarrow> parse_payload body = Inl IndexError \<and> answers_malformed e body)"
proof (intro conjI impI)
  assume h: "is_dict data
      \<and> first_elem (at_key_or ''entry'' (JArr [JObj []]) data) = Some en0 \<and> is_dict en0
      \<and> first_elem (at_key_or ''changes'' (JArr [JObj []]) en0) = Some ch0 \<and> is_dict ch0
      \<and> is_dict (at_key_or ''value'' (JObj []) ch0)
      \<and> first_elem (at_key_or ''messages'' (JArr [JObj []]) (at_key_or ''value'' (JObj []) ch0))
          = Some mo"
  then have "parse_payload data = parse_entry0 en0"
    by (simp add: parse_payload_stages py_get_at_key_or py_index0_first_elem)
  also have "\<dots> = parse_value (at_key_or ''value'' (JObj []) ch0)"
    using h by (simp add: parse_entry0_defaults)
  also have "\<dots> = Inr (mo, at_key_or ''metadata'' (JObj []) (at_key_or ''value'' (JObj []) ch0))"
    using h by (simp add: parse_value_defaults)
  finally show p: "parse_payload data
      = Inr (mo, at_key_or ''metadata'' (JObj []) (at_key_or ''value'' (JObj []) ch0))" .
  show "\<not> answers_malformed e data"
    using p by (rule parsed_not_malformed)
next
  assume h: "at_key ''entry'' body = Some en \<and>
        (en = JArr []
         \<or> (first_elem en = Some en1 \<and> at_key ''changes'' en1 = Some ch \<and>
             (ch = JArr []
              \<or> (first_elem ch = Some ch1 \<and> at_key ''value'' ch1 = Some v
                  \<and> at_key ''messages'' v = Some (JArr [])))))"
  then show p: "parse_payload body = Inl IndexError"
    by (auto simp: parse_payload_stages parse_entry0_def parse_changes_def parse_value_def
        py_get_at_key py_index0_first_elem)
  show "answers_malformed e body"
    using p by (simp add: caught_answers_malformed)
qed

theorem absent_keys_read_as_defaults_witness:
  "is_dict (JObj [])
   \<and> first_elem (at_key_or ''entry'' (JArr [JObj []]) (JObj [])) = Some (JObj [])
   \<and> first_elem (at_key_or ''changes'' (JArr [JObj []]) (JObj [])) = Some (JObj [])
   \<and> is_dict (at_key_or ''value'' (JObj []) (JObj []))
   \<and> first_elem (at_key_or ''messages'' (JArr [JObj []]) (at_key_or ''value'' (JObj []) (JObj [])))
       = Some (JObj [])
   \<and> parse_payload (JObj []) = Inr (JObj [], JObj [])
   \<and> \<not> answers_malformed failing_env (JObj [])
   \<and> parse_payload status_delivery = Inr (JObj [], metadata_of (JStr ''106540352242922''))
   \<and> \<not> answers_malformed failing_env status_delivery
   \<and> at_key ''entry'' (value_delivery (JObj [(''messages'', JArr [])]))
       = Some (JArr [JObj [(''changes'', JArr [JObj [(''value'', JObj [(''messages'', JArr [])])]])]])
   \<and> at_key ''messages'' (JObj [(''messages'', JArr [])]) = Some (JArr [])
   \<and> parse_payload (value_delivery (JObj [(''messages'', JArr [])])) = Inl IndexError
   \<and> answers_malformed failing_env (value_delivery (JObj [(''messages'', JArr [])]))"
  using
    absent_keys_read_as_defaults [of "JObj []" "JObj []" "JObj []" "JObj []" failing_env
      "value_delivery (JObj [(''messages'', JArr [])])"
      "JArr [JObj [(''changes'', JArr [JObj [(''value'', JObj [(''messages'', JArr [])])]])]]"
      "JObj [(''changes'', JArr [JObj [(''value'', JObj [(''messages'', JArr [])])]])]"
      "JArr [JObj [(''value'', JObj [(''messages'', JArr [])])]]"
      "JObj [(''value'', JObj [(''messages'', JArr [])])]"
      "JObj [(''messages'', JArr [])]"]
    absent_keys_read_as_defaults [of status_delivery
      "JObj [(''id'', JStr ''102290129340398''),
              (''changes'', JArr [JObj [(''field'', JStr ''messages''),
                 (''value'', JObj [(''messaging_product'', JStr ''whatsapp''),
                                   (''metadata'', metadata_of (JStr ''106540352242922'')),
                                   (''statuses'', JArr [JObj [(''status'', JStr ''read'')]])])]])]"
      "JObj [(''field'', JStr ''messages''),
                 (''value'', JObj [(''messaging_product'', JStr ''whatsapp''),
                                   (''metadata'', metadata_of (JStr ''106540352242922'')),
                                   (''statuses'', JArr [JObj [(''status'', JStr ''read'')]])])]"
      "JObj []" failing_env]
  by (simp add: at_key_or_def value_delivery_def status_delivery_def)

text \<open>The claim as stated fails at the body \<^verbatim>\<open>{"entry": []}\<close>.\<close>

theorem empty_array_reported_malformed_counterexample:
  "at_key ''entry'' (JObj [(''entry'', JArr [])]) = Some (JArr [])
   \<and> parse_payload (JObj [(''entry'', JArr [])]) = Inl IndexError
   \<and> webhook_post failing_env (JObj [(''entry'', JArr [])])
       = ([Print (Incoming_webhook_message (JObj [(''entry'', JArr [])])),
           Print (Error_parsing_payload IndexError)],
          Returned (Jsonify (error_body ''Malformed payload'')) 400)
   \<and> answers_malformed failing_env (JObj [(''entry'', JArr [])])"
  by (simp add: parse_payload_def webhook_post_def answers_malformed_def)

subsection \<open>C4\<close>

text \<open>
  What the code does for a text message whose four values lines 70 to 73 can read
  (\<^verbatim>\<open>metadata\<close> is an object, \<^verbatim>\<open>text\<close> is absent or an object): when one of the four is
  absent (\<^verbatim>\<open>.get\<close> then gives \<^verbatim>\<open>None\<close>) or falsy, the handler returns 400 with
  \<^verbatim>\<open>Missing message data\<close>, and no call is made.
\<close>

lemma missing_field_rejected:
  assumes "parse_payload data = Inr (m, md)"
    and "is_text_message m = Inr True"
    and "message_fields m md = Inr (p, t, f, i)"
    and "\<not> truthy p \<or> \<not> truthy t \<or> \<not> truthy f \<or> \<not> truthy i"
  shows "snd (webhook_post e data)
           = Returned (Jsonify (JObj [(''status'', JStr ''error''),
                                      (''message'', JStr ''Missing message data'')])) 400
       \<and> calls (fst (webhook_post e data)) = []"
  using assms by (auto simp: webhook_post_parsed handle_message_def error_body_def)

lemma absent_from_rejected:
  "snd (webhook_post e (delivery_of (metadata_of (JStr ''106540352242922''))
          (JArr [JObj [(''id'', JStr ''wamid.A1''), (''type'', JStr ''text''),
                       (''text'', JObj [(''body'', JStr ''halo'')])]])))
     = Returned (Jsonify (JObj [(''status'', JStr ''error''),
                                (''message'', JStr ''Missing message data'')])) 400"
  by (simp add: webhook_post_parsed [OF parse_delivery_of] handle_message_def
      is_text_message_def message_fields_def metadata_of_def error_body_def)

text \<open>
  C4. The claim asks for 400 and no call whenever a text message lacks one of the four
  values. The code does not answer so when the text body is absent because \<^verbatim>\<open>text\<close> is
  \<^verbatim>\<open>null\<close>: the descent succeeds, line 69 finds a text message, and
  \<^verbatim>\<open>message_object.get("text", {}).get("body")\<close> on line 71 raises AttributeError
  outside the \<^verbatim>\<open>try\<close> block, before line 75 is reached. The exception leaves the
  handler; no call has been made.
\<close>

theorem null_text_raises_instead_of_400:
  "parse_payload null_text_delivery
     = Inr (JObj [(''from'', JStr ''16505551234''), (''id'', JStr ''wamid.A1''),
                  (''type'', JStr ''text''), (''text'', JNull)],
            metadata_of (JStr ''106540352242922''))
   \<and> is_text_message (JObj [(''from'', JStr ''16505551234''), (''id'', JStr ''wamid.A1''),
                             (''type'', JStr ''text''), (''text'', JNull)]) = Inr True
   \<and> message_fields (JObj [(''from'', JStr ''16505551234''), (''id'', JStr ''wamid.A1''),
                            (''type'', JStr ''text''), (''text'', JNull)])
        (metadata_of (JStr ''106540352242922'')) = Inl AttributeError
   \<and> webhook_post e null_text_delivery
       = ([Print (Incoming_webhook_message null_text_delivery)], Unhandled AttributeError)"
proof -
  have a: "parse_payload null_text_delivery
     = Inr (JObj [(''from'', JStr ''16505551234''), (''id'', JStr ''wamid.A1''),
                  (''type'', JStr ''text''), (''text'', JNull)],
            metadata_of (JStr ''106540352242922''))"
    by (simp add: null_text_delivery_def parse_delivery_of)
  have b: "is_text_message (JObj [(''from'', JStr ''16505551234''), (''id'', JStr ''wamid.A1''),
                             (''type'', JStr ''text''), (''text'', JNull)]) = Inr True"
    by (simp add: is_text_message_def)
  have c: "message_fields (JObj [(''from'', JStr ''16505551234''), (''id'', JStr ''wamid.A1''),
                            (''type'', JStr ''text''), (''text'', JNull)])
        (metadata_of (JStr ''106540352242922'')) = Inl AttributeError"
    by (simp add: message_fields_def metadata_of_def)
  show ?thesis
    using a b c by (simp add: webhook_post_parsed [OF a] handle_message_def)
qed

subsection \<open>C5\<close>



subsection \<open>C6\<close>

text \<open>
  C6, as the code has it. On \<^verbatim>\<open>GET /webhook\<close>, when \<^verbatim>\<open>hub.mode\<close> and
  \<^verbatim>\<open>hub.verify_token\<close> are both present (given, with a non-empty value; C9 is about the
  empty value): if the mode is \<^verbatim>\<open>subscribe\<close>, the token is the configured verify token
  and \<^verbatim>\<open>hub.challenge\<close> is present, the handler returns the challenge as it came, with
  status 200; if the mode or the token does not match, it returns 403 with the error
  body \<^verbatim>\<open>Verification token mismatch\<close>. When the mode or the token is absent, it
  returns 400 with the error body \<^verbatim>\<open>Missing mode or token\<close>.
\<close>

theorem verification_handshake:
  "(args ''hub.mode'' = Some mode \<and> mode \<noteq> [] \<and> args ''hub.verify_token'' = Some token
      \<and> token \<noteq> [] \<longrightarrow>
      (mode = ''subscribe'' \<and> WEBHOOK_VERIFY_TOKEN e = Some token
         \<and> args ''hub.challenge'' = Some challenge \<longrightarrow>
         snd (webhook_get e args) = Returned (Raw challenge) 200)
      \<and> (\<not> (mode = ''subscribe'' \<and> WEBHOOK_VERIFY_TOKEN e = Some token) \<longrightarrow>
         snd (webhook_get e args) =
           Returned (Jsonify (JObj [(''status'', JStr ''error''),
                                    (''message'', JStr ''Verification token mismatch'')])) 403))
   \<and> (args ''hub.mode'' = None \<or> args ''hub.verify_token'' = None \<longrightarrow>
        snd (webhook_get e args) =
          Returned (Jsonify (JObj [(''status'', JStr ''error''),
                                   (''message'', JStr ''Missing mode or token'')])) 400)"
  by (auto simp: webhook_get_def Let_def error_body_def)

theorem verification_handshake_witness:
  "snd (webhook_get failing_env (query (Some ''subscribe'') (Some ''s3cret'') (Some ''1158201444'')))
     = Returned (Raw ''1158201444'') 200
   \<and> snd (webhook_get failing_env (query (Some ''subscribe'') (Some ''guess'') (Some ''1158201444'')))
     = Returned (Jsonify (JObj [(''status'', JStr ''error''),
                                (''message'', JStr ''Verification token mismatch'')])) 403
   \<and> snd (webhook_get failing_env (query (Some ''unsubscribe'') (Some ''s3cret'') (Some ''1158201444'')))
     = Returned (Jsonify (JObj [(''status'', JStr ''error''),
                                (''message'', JStr ''Verification token mismatch'')])) 403
   \<and> snd (webhook_get failing_env (query None (Some ''s3cret'') (Some ''1158201444'')))
     = Returned (Jsonify (JObj [(''status'', JStr ''error''),
                                (''message'', JStr ''Missing mode or token'')])) 400
   \<and> snd (webhook_get failing_env (query (Some ''subscribe'') None (Some ''1158201444'')))
     = Returned (Jsonify (JObj [(''status'', JStr ''error''),
                                (''message'', JStr ''Missing mode or token'')])) 400"
  using
    verification_handshake [of "query (Some ''subscribe'') (Some ''s3cret'') (Some ''1158201444'')"
      "''subscribe''" "''s3cret''" failing_env "''1158201444''"]
    verification_handshake [of "query (Some ''subscribe'') (Some ''guess'') (Some ''1158201444'')"
      "''subscribe''" "''guess''" failing_env "''1158201444''"]
    verification_handshake [of "query (Some ''unsubscribe'') (Some ''s3cret'') (Some ''1158201444'')"
      "''unsubscribe''" "''s3cret''" failing_env "''1158201444''"]
    verification_handshake [of "query None (Some ''s3cret'') (Some ''1158201444'')"
      "''x''" "''y''" failing_env "''1158201444''"]
    verification_handshake [of "query (Some ''subscribe'') None (Some ''1158201444'')"
      "''x''" "''y''" failing_env "''1158201444''"]
  by (simp add: query_def failing_env_def env_with_def)

text \<open>
  The claim as stated fails at a request with the right mode and token and without
  \<^verbatim>\<open>hub.challenge\<close>: the view returns \<^verbatim>\<open>(None, 200)\<close>, and the request ends with the
  framework's TypeError, not with status 200.
\<close>

theorem verified_without_challenge_counterexample:
  "query (Some ''subscribe'') (Some ''s3cret'') None ''hub.mode'' = Some ''subscribe''
   \<and> query (Some ''subscribe'') (Some ''s3cret'') None ''hub.verify_token'' = Some ''s3cret''
   \<and> WEBHOOK_VERIFY_TOKEN failing_env = Some ''s3cret''
   \<and> query (Some ''subscribe'') (Some ''s3cret'') None ''hub.challenge'' = None
   \<and> webhook_get failing_env (query (Some ''subscribe'') (Some ''s3cret'') None)
       = ([Print (GET_webhook (Some ''subscribe'') (Some ''s3cret'') None), Print Webhook_verified],
          Unhandled TypeError)"
  by (simp add: webhook_get_def query_def failing_env_def env_with_def)

subsection \<open>C7\<close>

text \<open>
  C7, as the code has it. Every run of \<^verbatim>\<open>get_chat_completion\<close> returns, and what it
  returns is one of three values: without client, the fixed reply that the assistant is
  unavailable; when the request to the provider raises, the fixed reply that the
  request could not be processed; otherwise the content of the provider's answer as it
  is, which is a str or \<^verbatim>\<open>None\<close>. So it returns a string unless the provider answers
  with the content \<^verbatim>\<open>None\<close>, and in both failure cases the string is non-empty. In
  an actionable text delivery no exception of the provider reaches the caller of the
  handler, which returns 200, and the value that \<^verbatim>\<open>get_chat_completion\<close> returned is
  the \<^verbatim>\<open>text.body\<close> of the payload that the send call posts.
\<close>

theorem completion_adapter_returns:
  "(cl = None \<longrightarrow>
      snd (get_chat_completion cl msg)
        = Some ''Maaf sedang ada kendala pada Asisten AI kami. Mohon ditunggu hingga kami menghubungi Anda kembali...'')
   \<and> (cl = Some create
        \<and> create ''gpt-4o-mini'' (JArr [JObj [(''role'', JStr ''user''), (''content'', msg)]]) = Raised
      \<longrightarrow> snd (get_chat_completion cl msg)
            = Some ''Ada kesalahan dalam memproses permintaan Anda. Mohon coba lagi nanti.'')
   \<and> (cl = Some create
        \<and> create ''gpt-4o-mini'' (JArr [JObj [(''role'', JStr ''user''), (''content'', msg)]]) = Content c
      \<longrightarrow> snd (get_chat_completion cl msg) = c)
   \<and> ((\<exists>s. snd (get_chat_completion cl msg) = Some s) \<longleftrightarrow>
        \<not> (\<exists>create'. cl = Some create'
              \<and> create' ''gpt-4o-mini'' (JArr [JObj [(''role'', JStr ''user''), (''content'', msg)]])
                  = Content None))
   \<and> (cl = None
        \<or> (cl = Some create
            \<and> create ''gpt-4o-mini'' (JArr [JObj [(''role'', JStr ''user''), (''content'', msg)]]) = Raised)
      \<longrightarrow> (\<exists>s. snd (get_chat_completion cl msg) = Some s \<and> s \<noteq> []))
   \<and> (parse_payload data = Inr (m, md) \<and> is_text_message m = Inr True
        \<and> message_fields m md = Inr (p, t, f, i)
        \<and> truthy p \<and> truthy t \<and> truthy f \<and> truthy i \<longrightarrow>
      snd (webhook_post e data) = Returned (Jsonify (JObj [(''status'', JStr ''success'')])) 200
      \<and> Call_requests_post \<lparr>graph_messages_url = p, bearer = GRAPH_API_TOKEN e,
           payload = JObj [(''messaging_product'', JStr ''whatsapp''),
                           (''to'', f),
                           (''text'', JObj [(''body'',
                              str_or_none (snd (get_chat_completion (client e) t)))]),
                           (''context'', JObj [(''message_id'', i)])]\<rparr>
          \<in> set (fst (webhook_post e data)))"
proof -
  have handler: "snd (webhook_post e data) = Returned (Jsonify (JObj [(''status'', JStr ''success'')])) 200
      \<and> Call_requests_post \<lparr>graph_messages_url = p, bearer = GRAPH_API_TOKEN e,
           payload = JObj [(''messaging_product'', JStr ''whatsapp''),
                           (''to'', f),
                           (''text'', JObj [(''body'',
                              str_or_none (snd (get_chat_completion (client e) t)))]),
                           (''context'', JObj [(''message_id'', i)])]\<rparr>
          \<in> set (fst (webhook_post e data))"
    if "parse_payload data = Inr (m, md)" "is_text_message m = Inr True"
      "message_fields m md = Inr (p, t, f, i)" "truthy p" "truthy t" "truthy f" "truthy i"
  proof -
    have "Call_requests_post \<lparr>graph_messages_url = p, bearer = GRAPH_API_TOKEN e,
         payload = payload_reply f (snd (get_chat_completion (client e) t)) i\<rparr>
        \<in> set (calls (reply_and_mark_read e p t f i))"
      by (simp add: calls_reply_and_mark_read)
    then show ?thesis
      using webhook_post_actionable [OF that, of e]
      by (simp add: in_calls_in_events payload_reply_def success_body_def)
  qed
  have adapter: "snd (get_chat_completion cl msg) =
     (case cl of
        None \<Rightarrow> Some ''Maaf sedang ada kendala pada Asisten AI kami. Mohon ditunggu hingga kami menghubungi Anda kembali...''
      | Some create' \<Rightarrow>
          (case create' ''gpt-4o-mini'' (JArr [JObj [(''role'', JStr ''user''), (''content'', msg)]]) of
             Content c' \<Rightarrow> c'
           | Raised \<Rightarrow> Some ''Ada kesalahan dalam memproses permintaan Anda. Mohon coba lagi nanti.''))"
    by (simp add: get_chat_completion_def chat_messages_def unavailable_reply_def failed_reply_def
        split: option.split completion_result.split)
  show ?thesis
    using handler unfolding adapter
    by (auto split: option.splits completion_result.splits)
qed

theorem completion_adapter_returns_witness:
  "snd (get_chat_completion None (JStr ''halo''))
     = Some ''Maaf sedang ada kendala pada Asisten AI kami. Mohon ditunggu hingga kami menghubungi Anda kembali...''
   \<and> snd (get_chat_completion (Some (\<lambda>model messages. Raised)) (JStr ''halo''))
     = Some ''Ada kesalahan dalam memproses permintaan Anda. Mohon coba lagi nanti.''
   \<and> snd (get_chat_completion (Some (\<lambda>model messages. Content (Some ''Halo!''))) (JStr ''halo''))
     = Some ''Halo!''
   \<and> snd (webhook_post failing_env hello_delivery)
       = Returned (Jsonify (JObj [(''status'', JStr ''success'')])) 200
   \<and> Call_requests_post \<lparr>graph_messages_url = JStr ''106540352242922'', bearer = Some ''EAAG'',
         payload = JObj [(''messaging_product'', JStr ''whatsapp''),
                         (''to'', JStr ''16505551234''),
                         (''text'', JObj [(''body'',
                            JStr ''Ada kesalahan dalam memproses permintaan Anda. Mohon coba lagi nanti.'')]),
                         (''context'', JObj [(''message_id'', JStr ''wamid.A1'')])]\<rparr>
        \<in> set (fst (webhook_post failing_env hello_delivery))"
proof -
  note a = parse_hello_delivery
  have b: "is_text_message (message_of (JStr ''16505551234'') (JStr ''wamid.A1'') (JStr ''halo'')) = Inr True"
    by (rule is_text_message_of)
  have c: "message_fields (message_of (JStr ''16505551234'') (JStr ''wamid.A1'') (JStr ''halo''))
        (metadata_of (JStr ''106540352242922''))
      = Inr (JStr ''106540352242922'', JStr ''halo'', JStr ''16505551234'', JStr ''wamid.A1'')"
    by (rule message_fields_of)
  have g: "GRAPH_API_TOKEN failing_env = Some ''EAAG''"
    and cl: "client failing_env = Some (\<lambda>model messages. Raised)"
    by (simp_all add: failing_env_def env_with_def)
  have 1: "snd (get_chat_completion None (JStr ''halo''))
     = Some ''Maaf sedang ada kendala pada Asisten AI kami. Mohon ditunggu hingga kami menghubungi Anda kembali...''"
    using completion_adapter_returns [where cl = None and msg = "JStr ''halo''"] by simp
  have 2: "snd (get_chat_completion (Some (\<lambda>model messages. Raised)) (JStr ''halo''))
     = Some ''Ada kesalahan dalam memproses permintaan Anda. Mohon coba lagi nanti.''"
    using completion_adapter_returns [where cl = "Some (\<lambda>model messages. Raised)"
        and msg = "JStr ''halo''" and create = "\<lambda>model messages. Raised"]
    by simp
  have 3: "snd (get_chat_completion (Some (\<lambda>model messages. Content (Some ''Halo!''))) (JStr ''halo''))
     = Some ''Halo!''"
    using completion_adapter_returns [where cl = "Some (\<lambda>model messages. Content (Some ''Halo!''))"
        and msg = "JStr ''halo''" and create = "\<lambda>model messages. Content (Some ''Halo!'')"
        and c = "Some ''Halo!''"]
    by simp
  have 4: "snd (webhook_post failing_env hello_delivery)
       = Returned (Jsonify (JObj [(''status'', JStr ''success'')])) 200
   \<and> Call_requests_post \<lparr>graph_messages_url = JStr ''106540352242922'', bearer = Some ''EAAG'',
         payload = JObj [(''messaging_product'', JStr ''whatsapp''),
                         (''to'', JStr ''16505551234''),
                         (''text'', JObj [(''body'',
                            str_or_none (snd (get_chat_completion (Some (\<lambda>model messages. Raised))
                              (JStr ''halo''))))]),
                         (''context'', JObj [(''message_id'', JStr ''wamid.A1'')])]\<rparr>
        \<in> set (fst (webhook_post failing_env hello_delivery))"
    using completion_adapter_returns [where cl = None and msg = "JStr ''halo''"
        and create = "\<lambda>model messages. Raised" and c = None and data = hello_delivery
        and m = "message_of (JStr ''16505551234'') (JStr ''wamid.A1'') (JStr ''halo'')"
        and md = "metadata_of (JStr ''106540352242922'')" and p = "JStr ''106540352242922''"
        and t = "JStr ''halo''" and f = "JStr ''16505551234''" and i = "JStr ''wamid.A1''"
        and e = failing_env] a b c g cl
    by simp
  show ?thesis
    using 1 2 3 4 unfolding 2 by simp
qed

text \<open>
  The claim as stated fails when the provider answers with the content \<^verbatim>\<open>None\<close>: line
  44 returns it as it is, and the send call posts \<^verbatim>\<open>null\<close> as \<^verbatim>\<open>text.body\<close>.
\<close>

theorem null_content_returned_counterexample:
  "client null_content_env = Some (\<lambda>model messages. Content None)
   \<and> get_chat_completion (client null_content_env) (JStr ''halo'')
       = ([Call_chat_completions_create ''gpt-4o-mini''
             (JArr [JObj [(''role'', JStr ''user''), (''content'', JStr ''halo'')]])], None)
   \<and> calls (fst (webhook_post null_content_env hello_delivery)) =
       [Call_chat_completions_create ''gpt-4o-mini''
          (JArr [JObj [(''role'', JStr ''user''), (''content'', JStr ''halo'')]]),
        Call_requests_post \<lparr>graph_messages_url = JStr ''106540352242922'', bearer = Some ''EAAG'',
           payload = JObj [(''messaging_product'', JStr ''whatsapp''),
                           (''to'', JStr ''16505551234''),
                           (''text'', JObj [(''body'', JNull)]),
                           (''context'', JObj [(''message_id'', JStr ''wamid.A1'')])]\<rparr>,
        Call_requests_post \<lparr>graph_messages_url = JStr ''106540352242922'', bearer = Some ''EAAG'',
           payload = JObj [(''messaging_product'', JStr ''whatsapp''),
                           (''status'', JStr ''read''),
                           (''message_id'', JStr ''wamid.A1'')]\<rparr>]"
proof -
  have d: "truthy (JStr ''106540352242922'')" "truthy (JStr ''halo'')"
    "truthy (JStr ''16505551234'')" "truthy (JStr ''wamid.A1'')"
    by simp_all
  have w: "webhook_post null_content_env hello_delivery =
     (Print (Incoming_webhook_message hello_delivery)
        # reply_and_mark_read null_content_env (JStr ''106540352242922'') (JStr ''halo'')
            (JStr ''16505551234'') (JStr ''wamid.A1''),
      Returned (Jsonify success_body) 200)"
    by (rule webhook_post_actionable [OF parse_hello_delivery is_text_message_of message_fields_of d])
  show ?thesis
    unfolding w
    by (simp add: reply_and_mark_read_def get_chat_completion_def post_logged_def
        null_content_env_def env_with_def payload_reply_def payload_read_def chat_messages_def)
qed

subsection \<open>C8\<close>

text \<open>
  C8, as the code has it. In an actionable text delivery each of the two relay calls
  is made exactly once (there is no retry, and the read mark is posted whatever became
  of the reply), and the handler returns 200 with \<^verbatim>\<open>{"status": "success"}\<close> whatever
  the relay answers. A call has failed when \<^verbatim>\<open>requests.post\<close> raises, or when the
  response has a status from 400 to 599, for which \<^verbatim>\<open>raise_for_status\<close> raises; the
  failure of either call is logged and goes no further.
\<close>

theorem relay_errors_logged_and_swallowed:
  fixes e :: env and p t f i :: json
  defines "send \<equiv> \<lparr>graph_messages_url = p, bearer = GRAPH_API_TOKEN e,
                     payload = payload_reply f (snd (get_chat_completion (client e) t)) i\<rparr>"
    and "mark \<equiv> \<lparr>graph_messages_url = p, bearer = GRAPH_API_TOKEN e, payload = payload_read i\<rparr>"
  assumes "parse_payload data = Inr (m, md)"
    and "is_text_message m = Inr True"
    and "message_fields m md = Inr (p, t, f, i)"
    and "truthy p" and "truthy t" and "truthy f" and "truthy i"
  shows "snd (webhook_post e data) = Returned (Jsonify success_body) 200
       \<and> filter is_post (fst (webhook_post e data)) = [Call_requests_post send, Call_requests_post mark]
       \<and> (relay_failed (requests_post e send) \<longrightarrow>
            Print Error_sending_reply \<in> set (fst (webhook_post e data)))
       \<and> (relay_failed (requests_post e mark) \<longrightarrow>
            Print Error_marking_read \<in> set (fst (webhook_post e data)))"
  using webhook_post_actionable [OF assms(3-9), of e] posts_reply_and_mark_read [of e p t f i]
    errors_in_reply_and_mark_read [where e = e and p = p and t = t and f = f and i = i]
  by (simp add: send_def mark_def)

theorem relay_errors_logged_and_swallowed_witness:
  "parse_payload hello_delivery =
     Inr (message_of (JStr ''16505551234'') (JStr ''wamid.A1'') (JStr ''halo''),
          metadata_of (JStr ''106540352242922''))
   \<and> is_text_message (message_of (JStr ''16505551234'') (JStr ''wamid.A1'') (JStr ''halo'')) = Inr True
   \<and> message_fields (message_of (JStr ''16505551234'') (JStr ''wamid.A1'') (JStr ''halo''))
        (metadata_of (JStr ''106540352242922''))
      = Inr (JStr ''106540352242922'', JStr ''halo'', JStr ''16505551234'', JStr ''wamid.A1'')
   \<and> truthy (JStr ''106540352242922'') \<and> truthy (JStr ''halo'')
   \<and> truthy (JStr ''16505551234'') \<and> truthy (JStr ''wamid.A1'')
   \<and> relay_failed (requests_post failing_env
        \<lparr>graph_messages_url = JStr ''106540352242922'', bearer = Some ''EAAG'',
         payload = payload_reply (JStr ''16505551234'') (Some failed_reply) (JStr ''wamid.A1'')\<rparr>)
   \<and> relay_failed (requests_post failing_env
        \<lparr>graph_messages_url = JStr ''106540352242922'', bearer = Some ''EAAG'',
         payload = payload_read (JStr ''wamid.A1'')\<rparr>)
   \<and> snd (webhook_post failing_env hello_delivery) = Returned (Jsonify success_body) 200
   \<and> filter is_post (fst (webhook_post failing_env hello_delivery)) =
       [Call_requests_post \<lparr>graph_messages_url = JStr ''106540352242922'', bearer = Some ''EAAG'',
           payload = payload_reply (JStr ''16505551234'') (Some failed_reply) (JStr ''wamid.A1'')\<rparr>,
        Call_requests_post \<lparr>graph_messages_url = JStr ''106540352242922'', bearer = Some ''EAAG'',
           payload = payload_read (JStr ''wamid.A1'')\<rparr>]
   \<and> Print Error_sending_reply \<in> set (fst (webhook_post failing_env hello_delivery))
   \<and> Print Error_marking_read \<in> set (fst (webhook_post failing_env hello_delivery))"
proof -
  note a = parse_hello_delivery
  have b: "is_text_message (message_of (JStr ''16505551234'') (JStr ''wamid.A1'') (JStr ''halo'')) = Inr True"
    by (rule is_text_message_of)
  have c: "message_fields (message_of (JStr ''16505551234'') (JStr ''wamid.A1'') (JStr ''halo''))
        (metadata_of (JStr ''106540352242922''))
      = Inr (JStr ''106540352242922'', JStr ''halo'', JStr ''16505551234'', JStr ''wamid.A1'')"
    by (rule message_fields_of)
  have d: "truthy (JStr ''106540352242922'')" "truthy (JStr ''halo'')"
    "truthy (JStr ''16505551234'')" "truthy (JStr ''wamid.A1'')"
    by simp_all
  have r: "snd (get_chat_completion (client failing_env) (JStr ''halo'')) = Some failed_reply"
    by (simp add: failing_env_def env_with_def get_chat_completion_def)
  have g: "GRAPH_API_TOKEN failing_env = Some ''EAAG''"
    by (simp add: failing_env_def env_with_def)
  have h: "relay_failed (requests_post failing_env req)" for req
    by (simp add: failing_env_def env_with_def raises_for_status_def)
  show ?thesis
    using relay_errors_logged_and_swallowed [OF a b c d, of failing_env] a b c d r g h
    by simp
qed

text \<open>
  The claim as stated fails at a response that is not 2xx and for which
  \<^verbatim>\<open>raise_for_status\<close> does not raise: a status 300 with a JSON content is logged as a
  reply sent and as a message marked as read, and no error is logged.
\<close>

theorem non_2xx_logged_as_success_counterexample:
  "requests_post multiple_choices_env
       \<lparr>graph_messages_url = JStr ''106540352242922'', bearer = Some ''EAAG'',
        payload = payload_reply (JStr ''16505551234'') (Some ''Halo!'') (JStr ''wamid.A1'')\<rparr>
     = Http_response 300 ''{}'' (Some (JObj []))
   \<and> fst (webhook_post multiple_choices_env hello_delivery) =
       [Print (Incoming_webhook_message hello_delivery),
        Print (User_message (JStr ''halo'') (JStr ''16505551234'')),
        Call_chat_completions_create ''gpt-4o-mini'' (chat_messages (JStr ''halo'')),
        Print (AI_reply (Some ''Halo!'')),
        Call_requests_post \<lparr>graph_messages_url = JStr ''106540352242922'', bearer = Some ''EAAG'',
           payload = payload_reply (JStr ''16505551234'') (Some ''Halo!'') (JStr ''wamid.A1'')\<rparr>,
        Print (Reply_sent (JObj [])),
        Call_requests_post \<lparr>graph_messages_url = JStr ''106540352242922'', bearer = Some ''EAAG'',
           payload = payload_read (JStr ''wamid.A1'')\<rparr>,
        Print (Marked_as_read (JObj []))]
   \<and> Print Error_sending_reply \<notin> set (fst (webhook_post multiple_choices_env hello_delivery))
   \<and> Print Error_marking_read \<notin> set (fst (webhook_post multiple_choices_env hello_delivery))"
proof -
  have d: "truthy (JStr ''106540352242922'')" "truthy (JStr ''halo'')"
    "truthy (JStr ''16505551234'')" "truthy (JStr ''wamid.A1'')"
    by simp_all
  have w: "webhook_post multiple_choices_env hello_delivery =
     (Print (Incoming_webhook_message hello_delivery)
        # reply_and_mark_read multiple_choices_env (JStr ''106540352242922'') (JStr ''halo'')
            (JStr ''16505551234'') (JStr ''wamid.A1''),
      Returned (Jsonify success_body) 200)"
    by (rule webhook_post_actionable [OF parse_hello_delivery is_text_message_of message_fields_of d])
  show ?thesis
    unfolding w
    by (simp add: reply_and_mark_read_def get_chat_completion_def post_logged_def
        raises_for_status_def multiple_choices_env_def env_with_def)
qed

subsection \<open>C9\<close>

text \<open>
  C9. On \<^verbatim>\<open>GET /webhook\<close>, a \<^verbatim>\<open>hub.mode\<close> or a \<^verbatim>\<open>hub.verify_token\<close> that is given with
  the empty string as its value is taken as absent: the handler returns 400 with
  \<^verbatim>\<open>Missing mode or token\<close>, never 403.
\<close>

theorem empty_mode_or_token_is_missing:
  assumes "args ''hub.mode'' = Some [] \<or> args ''hub.verify_token'' = Some []"
  shows "snd (webhook_get e args) = Returned (Jsonify (error_body ''Missing mode or token'')) 400"
  using assms by (auto simp: webhook_get_def Let_def)

theorem empty_mode_or_token_is_missing_witness:
  "query (Some ''subscribe'') (Some []) (Some ''1158201444'') ''hub.mode'' = Some ''subscribe''
   \<and> query (Some ''subscribe'') (Some []) (Some ''1158201444'') ''hub.verify_token'' = Some []
   \<and> snd (webhook_get failing_env (query (Some ''subscribe'') (Some []) (Some ''1158201444'')))
       = Returned (Jsonify (error_body ''Missing mode or token'')) 400
   \<and> snd (webhook_get failing_env (query (Some ''subscribe'') (Some []) (Some ''1158201444'')))
       \<noteq> Returned (Jsonify (error_body ''Verification token mismatch'')) 403"
proof -
  have h: "query (Some ''subscribe'') (Some []) (Some ''1158201444'') ''hub.mode'' = Some []
      \<or> query (Some ''subscribe'') (Some []) (Some ''1158201444'') ''hub.verify_token'' = Some []"
    by (simp add: query_def)
  have m: "query (Some ''subscribe'') (Some []) (Some ''1158201444'') ''hub.mode'' = Some ''subscribe''"
    and t: "query (Some ''subscribe'') (Some []) (Some ''1158201444'') ''hub.verify_token'' = Some []"
    by (simp_all add: query_def)
  show ?thesis
    using empty_mode_or_token_is_missing [OF h, of failing_env] m t by simp
qed

subsection \<open>C10\<close>

text \<open>
  C10. Of the array \<^verbatim>\<open>value.messages\<close> only the first element counts: for every body,
  the handler returns the same value, makes the same calls and, but for the line that
  prints the body, logs the same lines as on the body whose message array is cut after
  its first element. On a delivery of the usual shape that cut leaves the delivery of
  the first message alone.
\<close>

theorem only_first_message_acted_upon:
  "only_first_message (delivery_of md (JArr (m # ms))) = delivery_of md (JArr [m])
   \<and> snd (webhook_post e (only_first_message data)) = snd (webhook_post e data)
   \<and> calls (fst (webhook_post e (only_first_message data))) = calls (fst (webhook_post e data))
   \<and> tl (fst (webhook_post e (only_first_message data))) = tl (fst (webhook_post e data))"
  using webhook_post_depends_on_parse [OF parse_only_first_message, of e data]
  by (simp add: only_first_message_def delivery_of_def)

theorem only_first_message_acted_upon_witness:
  "only_first_message two_message_delivery = hello_delivery
   \<and> snd (webhook_post failing_env two_message_delivery)
       = snd (webhook_post failing_env hello_delivery)
   \<and> calls (fst (webhook_post failing_env two_message_delivery))
       = calls (fst (webhook_post failing_env hello_delivery))"
proof -
  note inst = only_first_message_acted_upon [of "metadata_of (JStr ''106540352242922'')"
      "message_of (JStr ''16505551234'') (JStr ''wamid.A1'') (JStr ''halo'')"
      "[message_of (JStr ''16505551234'') (JStr ''wamid.A2'') (JStr ''jam buka?'')]"
      failing_env two_message_delivery]
  have cut: "only_first_message two_message_delivery = hello_delivery"
    using inst by (simp add: two_message_delivery_def hello_delivery_def)
  from inst show ?thesis
    unfolding cut by simp
qed

end
